theory Spec2Isabelle
  imports Main
begin

section \<open>Exceptions and Python primitives\<close>

text \<open>
  Exceptions are values. The first group are Python's own, the second the classes the
  device client library raises, the last two the platform's errors, which carry the
  message and the causing exception they are constructed with
  (\<^verbatim>\<open>UpdateFailed(ERROR_CONNECT_FAILED, err)\<close>).
\<close>

datatype exn =
    AttributeError
  | IndexError
  | UnboundLocalError
  | OtherException
  | JtechError
  | JtechAuthError
  | JtechConnectionError
  | JtechConnectionTimeout
  | ConfigEntryAuthFailed string exn
  | UpdateFailed string exn

text \<open>const.py\<close>

definition ERROR_CONNECT_FAILED :: string where
  "ERROR_CONNECT_FAILED = ''Failed to connect''"

definition ERROR_FETCH_DATA_FAILED :: string where
  "ERROR_FETCH_DATA_FAILED = ''Failed to fetch data''"

definition ERROR_AUTH_FAILED :: string where
  "ERROR_AUTH_FAILED = ''Authentication failed''"

definition ERROR_UNKNOWN :: string where
  "ERROR_UNKNOWN = ''Unknown error occurred''"

text \<open>\<^verbatim>\<open>xs[idx]\<close> for an index that comes from \<^verbatim>\<open>enumerate\<close> (never negative).\<close>

definition py_index :: "'a list \<Rightarrow> nat \<Rightarrow> exn + 'a" where
  "py_index xs idx = (if idx < length xs then Inr (xs ! idx) else Inl IndexError)"

text \<open>\<^verbatim>\<open>obj.field\<close> where \<^verbatim>\<open>obj\<close> may be \<^verbatim>\<open>None\<close>.\<close>

definition py_attr :: "'a option \<Rightarrow> ('a \<Rightarrow> 'b) \<Rightarrow> exn + 'b" where
  "py_attr obj field = (case obj of None \<Rightarrow> Inl AttributeError | Some x \<Rightarrow> Inr (field x))"

text \<open>Sequencing of two steps of which the first may raise.\<close>

definition and_then :: "exn + 'a \<Rightarrow> ('a \<Rightarrow> exn + 'b) \<Rightarrow> exn + 'b" where
  "and_then r f = (case r of Inl e \<Rightarrow> Inl e | Inr v \<Rightarrow> f v)"

section \<open>structures.py\<close>

text \<open>
  The two dataclasses. Both have fields \<^verbatim>\<open>name\<close> and \<^verbatim>\<open>cec_selected\<close>, so
  the fields carry the prefix \<open>out_\<close> or \<open>src_\<close>.
\<close>

record JtechOutputInfo =
  out_source :: int
  out_name :: string
  out_cat_name :: string
  out_connected :: bool
  out_cat_connected :: bool
  out_enabled :: bool
  out_cat_enabled :: bool
  out_scaler :: int
  out_cec_selected :: bool

record JtechSourceInfo =
  src_outputs :: "int list"
  src_name :: string
  src_active :: bool
  src_edid_index :: int
  src_cec_selected :: bool

section \<open>Status objects of the device client\<close>

text \<open>
  The responses of the client library, with the attributes the coordinator reads. The
  coordinator tests the two name arrays for truth, so they may be absent: \<^verbatim>\<open>None\<close>
  and \<^verbatim>\<open>[]\<close> are both false.
\<close>

record status_response =
  power :: bool
  model :: string
  version :: string

record source_status_response =
  source_names :: "string list option"
  active_sources :: "bool list"
  edid_indexes :: "int list"

record output_status_response =
  output_names :: "string list option"
  selected_sources :: "int list"
  output_cat_names :: "string list"
  connected_outputs :: "bool list"
  connected_cat_outputs :: "bool list"
  enabled_outputs :: "bool list"
  enabled_cat_outputs :: "bool list"
  selected_output_scalers :: "int list"

record cec_status_response =
  selected_cec_sources :: "int list"
  selected_cec_outputs :: "int list"

record network_response =
  hostname :: string
  ipaddress :: string
  subnet :: string
  gateway :: string
  macaddress :: string
  dhcp :: bool
  telnetport :: int
  tcpport :: int

record system_status_response =
  baudrate_index :: int
  beep :: bool
  lock :: bool
  mode :: int

record web_details_response =
  title :: string

text \<open>
  The dictionary \<^verbatim>\<open>statuses\<close> that \<^verbatim>\<open>_fetch_status\<close> builds has the seven
  fixed keys \<^verbatim>\<open>"status"\<close>, \<^verbatim>\<open>"source"\<close>, \<^verbatim>\<open>"output"\<close>, \<^verbatim>\<open>"cec"\<close>,
  \<^verbatim>\<open>"network"\<close>, \<^verbatim>\<open>"system"\<close>, \<^verbatim>\<open>"web_details"\<close>; a value is a response or
  \<^verbatim>\<open>None\<close>.
\<close>

record statuses =
  st_status :: "status_response option"
  st_source :: "source_status_response option"
  st_output :: "output_status_response option"
  st_cec :: "cec_status_response option"
  st_network :: "network_response option"
  st_system :: "system_status_response option"
  st_web_details :: "web_details_response option"

section \<open>coordinator.py: reconciliation\<close>

text \<open>The body of the loop of \<^verbatim>\<open>_handle_output_update\<close>, in the order of the source.\<close>

definition output_row ::
  "output_status_response \<Rightarrow> cec_status_response option \<Rightarrow> nat \<Rightarrow> string \<Rightarrow> exn + JtechOutputInfo" where
  "output_row output_status cec_status idx output_name =
     and_then (py_index (selected_sources output_status) idx) (\<lambda>source_idx.
     and_then (py_index (output_cat_names output_status) idx) (\<lambda>cat_name.
     and_then (py_index (connected_outputs output_status) idx) (\<lambda>connected.
     and_then (py_index (connected_cat_outputs output_status) idx) (\<lambda>cat_connected.
     and_then (py_index (enabled_outputs output_status) idx) (\<lambda>enabled.
     and_then (py_index (enabled_cat_outputs output_status) idx) (\<lambda>cat_enabled.
     and_then (py_index (selected_output_scalers output_status) idx) (\<lambda>scaler.
     and_then (py_attr cec_status selected_cec_outputs) (\<lambda>cec_outputs.
       Inr \<lparr> out_source = source_idx, out_name = output_name, out_cat_name = cat_name,
             out_connected = connected, out_cat_connected = cat_connected,
             out_enabled = enabled, out_cat_enabled = cat_enabled, out_scaler = scaler,
             out_cec_selected = (int idx \<in> set cec_outputs) \<rparr>))))))))"

fun output_loop ::
  "output_status_response \<Rightarrow> cec_status_response option \<Rightarrow> nat \<Rightarrow> string list \<Rightarrow>
   JtechOutputInfo list \<Rightarrow> exn + JtechOutputInfo list" where
  "output_loop output_status cec_status idx [] outputs_data = Inr outputs_data"
| "output_loop output_status cec_status idx (output_name # rest) outputs_data =
     (case output_row output_status cec_status idx output_name of
        Inl e \<Rightarrow> Inl e
      | Inr row \<Rightarrow> output_loop output_status cec_status (Suc idx) rest (outputs_data @ [row]))"

text \<open>
  \<^verbatim>\<open>_handle_output_update\<close>. Without an output status, or with a false name array,
  the function falls off its end and returns \<^verbatim>\<open>None\<close>.
\<close>

definition handle_output_update :: "statuses \<Rightarrow> exn + JtechOutputInfo list option" where
  "handle_output_update sts =
     (case st_output sts of
        None \<Rightarrow> Inr None
      | Some output_status \<Rightarrow>
          (case output_names output_status of
             None \<Rightarrow> Inr None
           | Some names \<Rightarrow>
               (if names = [] then Inr None
                else and_then (output_loop output_status (st_cec sts) 0 names [])
                       (\<lambda>outputs_data. Inr (Some outputs_data)))))"

text \<open>The inner loop of \<^verbatim>\<open>_handle_source_update\<close> over \<^verbatim>\<open>enumerate(selected_sources)\<close>.\<close>

fun collect_outputs :: "nat \<Rightarrow> nat \<Rightarrow> int list \<Rightarrow> int list \<Rightarrow> int list" where
  "collect_outputs idx output_idx [] outputs = outputs"
| "collect_outputs idx output_idx (source # rest) outputs =
     collect_outputs idx (Suc output_idx) rest
       (if source = int idx then outputs @ [int output_idx + 1] else outputs)"

definition source_row ::
  "source_status_response \<Rightarrow> output_status_response option \<Rightarrow> cec_status_response option \<Rightarrow>
   nat \<Rightarrow> string \<Rightarrow> exn + JtechSourceInfo" where
  "source_row source_status output_status cec_status idx source_name =
     and_then (py_index (active_sources source_status) idx) (\<lambda>active.
     and_then (py_index (edid_indexes source_status) idx) (\<lambda>edid_index.
     and_then (py_attr cec_status selected_cec_sources) (\<lambda>cec_sources.
     and_then (py_attr output_status selected_sources) (\<lambda>sel.
       Inr \<lparr> src_outputs = collect_outputs idx 0 sel [], src_name = source_name,
             src_active = active, src_edid_index = edid_index,
             src_cec_selected = (int idx \<in> set cec_sources) \<rparr>))))"

fun source_loop ::
  "source_status_response \<Rightarrow> output_status_response option \<Rightarrow> cec_status_response option \<Rightarrow>
   nat \<Rightarrow> string list \<Rightarrow> JtechSourceInfo list \<Rightarrow> exn + JtechSourceInfo list" where
  "source_loop source_status output_status cec_status idx [] sources_data = Inr sources_data"
| "source_loop source_status output_status cec_status idx (source_name # rest) sources_data =
     (case source_row source_status output_status cec_status idx source_name of
        Inl e \<Rightarrow> Inl e
      | Inr row \<Rightarrow>
          source_loop source_status output_status cec_status (Suc idx) rest (sources_data @ [row]))"

text \<open>\<^verbatim>\<open>_handle_source_update\<close>; the output status is read without a test for \<^verbatim>\<open>None\<close>.\<close>

definition handle_source_update :: "statuses \<Rightarrow> exn + JtechSourceInfo list option" where
  "handle_source_update sts =
     (case st_source sts of
        None \<Rightarrow> Inr None
      | Some source_status \<Rightarrow>
          (case source_names source_status of
             None \<Rightarrow> Inr None
           | Some names \<Rightarrow>
               (if names = [] then Inr None
                else and_then
                       (source_loop source_status (st_output sts) (st_cec sts) 0 names [])
                       (\<lambda>sources_data. Inr (Some sources_data)))))"

section \<open>coordinator.py: the coordinator and its poll cycle\<close>

text \<open>
  The calls made on the device client, kept in a log so that statements about which
  calls a method makes can be written down.
\<close>

datatype client_call =
    Call_connect string string
  | Call_get_status
  | Call_get_source_status
  | Call_get_output_status
  | Call_get_cec_status
  | Call_get_network
  | Call_get_system_status
  | Call_get_web_details
  | Call_set_output_stream int bool
  | Call_set_output_cat_stream int bool
  | Call_set_video_source int int
  | Call_send_cec_output int int
  | Call_send_cec_source int int
  | Call_set_power bool

text \<open>
  What the device client does during one poll cycle: \<^verbatim>\<open>connect\<close> returns or
  raises, and each of the seven status calls returns a response or raises. The client
  library declares its error classes outside this repository; they are taken as
  distinct classes, none a subclass of another one that is caught by name.
\<close>

record device =
  connect_raises :: "exn option"
  get_status :: "exn + status_response"
  get_source_status :: "exn + source_status_response"
  get_output_status :: "exn + output_status_response"
  get_cec_status :: "exn + cec_status_response"
  get_network :: "exn + network_response"
  get_system_status :: "exn + system_status_response"
  get_web_details :: "exn + web_details_response"

text \<open>The values stored in the combined status dictionary.\<close>

datatype pyval = VBool bool | VStr string | VInt int

text \<open>
  The coordinator object. \<open>client\<close> tells whether \<^verbatim>\<open>self._client\<close> has been
  created; \<open>outputs\<close> and \<open>sources\<close> start as empty lists and can become
  \<^verbatim>\<open>None\<close>; \<open>data\<close> is the attribute of the platform's base class that holds
  the published record; \<open>client_calls\<close> is the log of calls on the client and
  \<open>refresh_requests\<close> counts the calls of \<^verbatim>\<open>async_request_refresh\<close>.
\<close>

record coordinator =
  username :: string
  password :: string
  client :: bool
  connected :: bool
  outputs :: "JtechOutputInfo list option"
  sources :: "JtechSourceInfo list option"
  data :: "(string \<rightharpoonup> pyval) option"
  client_calls :: "client_call list"
  refresh_requests :: nat

text \<open>\<^verbatim>\<open>__init__\<close>\<close>

definition init :: "string \<Rightarrow> string \<Rightarrow> coordinator" where
  "init user pass =
     \<lparr> username = user, password = pass, client = False, connected = False,
       outputs = Some [], sources = Some [], data = None, client_calls = [],
       refresh_requests = 0 \<rparr>"

text \<open>\<^verbatim>\<open>_client_connect\<close>: the three handlers in the order of the source.\<close>

definition client_connect :: "device \<Rightarrow> coordinator \<Rightarrow> (exn + unit) \<times> coordinator" where
  "client_connect dev c =
     (if \<not> connected c then
        (let c1 = c\<lparr>client_calls := client_calls c @ [Call_connect (username c) (password c)]\<rparr>
         in case connect_raises dev of
              None \<Rightarrow> (Inr (), c1\<lparr>connected := True\<rparr>)
            | Some err \<Rightarrow>
                (if err = JtechAuthError
                 then (Inl (ConfigEntryAuthFailed ERROR_AUTH_FAILED err), c1\<lparr>connected := False\<rparr>)
                 else if err = JtechConnectionError
                 then (Inl (UpdateFailed ERROR_CONNECT_FAILED err), c1\<lparr>connected := False\<rparr>)
                 else (Inl (UpdateFailed ERROR_UNKNOWN err), c1\<lparr>connected := False\<rparr>)))
      else (Inr (), c))"

text \<open>\<^verbatim>\<open>_client_ensure\<close>\<close>

definition client_ensure :: "device \<Rightarrow> coordinator \<Rightarrow> (exn + unit) \<times> coordinator" where
  "client_ensure dev c = client_connect dev (if \<not> client c then c\<lparr>client := True\<rparr> else c)"

text \<open>
  \<^verbatim>\<open>_fetch_status\<close>: \<^verbatim>\<open>gather(..., return_exceptions=True)\<close> hands back every
  outcome, and an outcome that is an exception is replaced by \<^verbatim>\<open>None\<close>.
\<close>

definition filter_exception :: "exn + 'a \<Rightarrow> 'a option" where
  "filter_exception response = (case response of Inl e \<Rightarrow> None | Inr r \<Rightarrow> Some r)"

definition fetch_status :: "device \<Rightarrow> coordinator \<Rightarrow> statuses \<times> coordinator" where
  "fetch_status dev c =
     (\<lparr> st_status = filter_exception (get_status dev),
        st_source = filter_exception (get_source_status dev),
        st_output = filter_exception (get_output_status dev),
        st_cec = filter_exception (get_cec_status dev),
        st_network = filter_exception (get_network dev),
        st_system = filter_exception (get_system_status dev),
        st_web_details = filter_exception (get_web_details dev) \<rparr>,
      c\<lparr>client_calls := client_calls c @
          [Call_get_status, Call_get_source_status, Call_get_output_status, Call_get_cec_status,
           Call_get_network, Call_get_system_status, Call_get_web_details]\<rparr>)"

text \<open>The dictionary \<^verbatim>\<open>combined_data\<close>, built from an empty one in every cycle.\<close>

definition combined_data :: "statuses \<Rightarrow> (string \<rightharpoonup> pyval)" where
  "combined_data sts =
     (let d0 = Map.empty;
          d1 = (case st_status sts of
                  None \<Rightarrow> d0
                | Some status \<Rightarrow>
                    d0(''power'' \<mapsto> VBool (power status),
                       ''model'' \<mapsto> VStr (model status),
                       ''version'' \<mapsto> VStr (version status)));
          d2 = (case st_network sts of
                  None \<Rightarrow> d1
                | Some network_status \<Rightarrow>
                    d1(''hostname'' \<mapsto> VStr (hostname network_status),
                       ''ipaddress'' \<mapsto> VStr (ipaddress network_status),
                       ''subnet'' \<mapsto> VStr (subnet network_status),
                       ''gateway'' \<mapsto> VStr (gateway network_status),
                       ''macaddress'' \<mapsto> VStr (macaddress network_status),
                       ''dhcp'' \<mapsto> VBool (dhcp network_status),
                       ''telnetport'' \<mapsto> VInt (telnetport network_status),
                       ''tcpport'' \<mapsto> VInt (tcpport network_status)));
          d3 = (case st_system sts of
                  None \<Rightarrow> d2
                | Some system_status \<Rightarrow>
                    d2(''baudrate_index'' \<mapsto> VInt (baudrate_index system_status),
                       ''beep'' \<mapsto> VBool (beep system_status),
                       ''lock'' \<mapsto> VBool (lock system_status),
                       ''mode'' \<mapsto> VInt (mode system_status)));
          d4 = (case st_web_details sts of
                  None \<Rightarrow> d3
                | Some web_details \<Rightarrow> d3(''title'' \<mapsto> VStr (title web_details)))
      in d4)"

text \<open>The two handlers of the \<^verbatim>\<open>try\<close> block of \<^verbatim>\<open>_async_update_data\<close>.\<close>

definition update_failed :: "exn \<Rightarrow> coordinator \<Rightarrow> (exn + (string \<rightharpoonup> pyval)) \<times> coordinator" where
  "update_failed err c =
     (if err = JtechAuthError
      then (Inl (UpdateFailed ERROR_AUTH_FAILED err), c\<lparr>connected := False\<rparr>)
      else (Inl (UpdateFailed ERROR_FETCH_DATA_FAILED err), c\<lparr>connected := False\<rparr>))"

text \<open>
  \<^verbatim>\<open>_async_update_data\<close>. \<^verbatim>\<open>_client_ensure\<close> is awaited before the \<^verbatim>\<open>try\<close>,
  so what it raises leaves the method as it is; \<^verbatim>\<open>self.outputs\<close> is assigned before
  \<^verbatim>\<open>_handle_source_update\<close> runs.
\<close>

definition async_update_data ::
  "device \<Rightarrow> coordinator \<Rightarrow> (exn + (string \<rightharpoonup> pyval)) \<times> coordinator" where
  "async_update_data dev c =
     (case client_ensure dev c of
        (Inl e, c1) \<Rightarrow> (Inl e, c1)
      | (Inr _, c1) \<Rightarrow>
          (case fetch_status dev c1 of
             (sts, c2) \<Rightarrow>
               (case handle_output_update sts of
                  Inl err \<Rightarrow> update_failed err c2
                | Inr outputs_data \<Rightarrow>
                    (let c3 = c2\<lparr>outputs := outputs_data\<rparr>
                     in case handle_source_update sts of
                          Inl err \<Rightarrow> update_failed err c3
                        | Inr sources_data \<Rightarrow>
                            (Inr (combined_data sts), c3\<lparr>sources := sources_data\<rparr>)))))"

text \<open>
  Modelled from the spec: the refresh step of the platform's base class
  \<^verbatim>\<open>DataUpdateCoordinator\<close>, which is not part of this repository. It runs
  \<^verbatim>\<open>_async_update_data\<close> and publishes the record the method returns as the
  coordinator's current data; when the method raises, the data stay as they were. The
  result tells what the cycle raised, if anything.
\<close>

definition async_refresh :: "device \<Rightarrow> coordinator \<Rightarrow> exn option \<times> coordinator" where
  "async_refresh dev c =
     (case async_update_data dev c of
        (Inl e, c') \<Rightarrow> (Some e, c')
      | (Inr combined, c') \<Rightarrow> (None, c'\<lparr>data := Some combined\<rparr>))"

section \<open>coordinator.py: command methods\<close>

text \<open>
  \<^verbatim>\<open>return await self._client.method(...)\<close>: the answer of the client, a boolean or
  an exception, is a parameter. Before the first cycle \<^verbatim>\<open>self._client\<close> is
  \<^verbatim>\<open>None\<close> and the attribute access raises.
\<close>

definition client_command ::
  "(client_call \<Rightarrow> exn + bool) \<Rightarrow> client_call \<Rightarrow> coordinator \<Rightarrow> (exn + bool) \<times> coordinator" where
  "client_command answer call c =
     (if client c then (answer call, c\<lparr>client_calls := client_calls c @ [call]\<rparr>)
      else (Inl AttributeError, c))"

definition async_enable_output ::
  "(client_call \<Rightarrow> exn + bool) \<Rightarrow> int \<Rightarrow> coordinator \<Rightarrow> (exn + bool) \<times> coordinator" where
  "async_enable_output answer output c = client_command answer (Call_set_output_stream output True) c"

definition async_enable_cat_output ::
  "(client_call \<Rightarrow> exn + bool) \<Rightarrow> int \<Rightarrow> coordinator \<Rightarrow> (exn + bool) \<times> coordinator" where
  "async_enable_cat_output answer output c =
     client_command answer (Call_set_output_cat_stream output True) c"

definition async_disable_output ::
  "(client_call \<Rightarrow> exn + bool) \<Rightarrow> int \<Rightarrow> coordinator \<Rightarrow> (exn + bool) \<times> coordinator" where
  "async_disable_output answer output c = client_command answer (Call_set_output_stream output False) c"

definition async_disable_cat_output ::
  "(client_call \<Rightarrow> exn + bool) \<Rightarrow> int \<Rightarrow> coordinator \<Rightarrow> (exn + bool) \<times> coordinator" where
  "async_disable_cat_output answer output c =
     client_command answer (Call_set_output_cat_stream output False) c"

definition async_select_source ::
  "(client_call \<Rightarrow> exn + bool) \<Rightarrow> int \<Rightarrow> int \<Rightarrow> coordinator \<Rightarrow> (exn + bool) \<times> coordinator" where
  "async_select_source answer output source c =
     client_command answer (Call_set_video_source output source) c"

definition async_send_cec_output ::
  "(client_call \<Rightarrow> exn + bool) \<Rightarrow> int \<Rightarrow> int \<Rightarrow> coordinator \<Rightarrow> (exn + bool) \<times> coordinator" where
  "async_send_cec_output answer output command c =
     client_command answer (Call_send_cec_output output command) c"

definition async_send_cec_source ::
  "(client_call \<Rightarrow> exn + bool) \<Rightarrow> int \<Rightarrow> int \<Rightarrow> coordinator \<Rightarrow> (exn + bool) \<times> coordinator" where
  "async_send_cec_source answer source command c =
     client_command answer (Call_send_cec_source source command) c"

definition async_power_on ::
  "(client_call \<Rightarrow> exn + bool) \<Rightarrow> coordinator \<Rightarrow> (exn + bool) \<times> coordinator" where
  "async_power_on answer c = client_command answer (Call_set_power True) c"

definition async_power_off ::
  "(client_call \<Rightarrow> exn + bool) \<Rightarrow> coordinator \<Rightarrow> (exn + bool) \<times> coordinator" where
  "async_power_off answer c = client_command answer (Call_set_power False) c"

section \<open>_coordinator.py: the alternate coordinator\<close>

text \<open>
  The second coordinator of the repository keeps the fetched arrays as attributes and
  polls the endpoints one after the other. Its names carry the prefix \<open>l_\<close> (the
  attributes of the coordinator), \<open>ld_\<close> (the client) and one prefix per response.
  Attributes that the methods test for truth may be absent or empty. The attributes
  \<^verbatim>\<open>preset_names\<close>, \<^verbatim>\<open>sources_count\<close> and \<^verbatim>\<open>outputs_count\<close> do not exist
  before the first cycle assigns them (\<^verbatim>\<open>__init__\<close> sets \<^verbatim>\<open>presets_names\<close>).
\<close>

definition truthy :: "'a list option \<Rightarrow> bool" where
  "truthy v = (case v of None \<Rightarrow> False | Some xs \<Rightarrow> xs \<noteq> [])"

record l_status_response =
  ls_power :: bool
  ls_model :: "string option"
  ls_macaddress :: "string option"
  ls_version :: "string option"

record l_video_status_response =
  lv_power :: bool
  lv_selected_sources :: "int list"
  lv_preset_names :: "string list"
  lv_source_names :: "string list option"
  lv_output_names :: "string list option"
  lv_output_cat_names :: "string list option"

record l_source_status_response =
  lsrc_power :: bool
  lsrc_edid_indexes :: "int list"
  lsrc_active_sources :: "bool list"
  lsrc_source_names :: "string list option"

record l_output_status_response =
  lo_power :: bool
  lo_selected_sources :: "int list"
  lo_selected_output_scalers :: "int list"
  lo_enabled_outputs :: "bool list"
  lo_enabled_cat_outputs :: "bool list"
  lo_connected_outputs :: "bool list"
  lo_connected_cat_outputs :: "bool list"
  lo_output_names :: "string list option"
  lo_output_cat_names :: "string list option"

record l_system_status_response =
  lsys_power :: bool
  lsys_baudrate_index :: int
  lsys_beep :: bool
  lsys_lock :: bool
  lsys_mode :: int
  lsys_version :: "string option"

record l_device =
  ld_connect_raises :: "exn option"
  ld_sources_count :: int
  ld_outputs_count :: int
  ld_get_status :: "exn + l_status_response"
  ld_get_video_status :: "exn + l_video_status_response"
  ld_get_source_status :: "exn + l_source_status_response"
  ld_get_output_status :: "exn + l_output_status_response"
  ld_get_system_status :: "exn + l_system_status_response"

record l_coordinator =
  l_power :: "bool option"
  l_model :: "string option"
  l_mac :: "string option"
  l_version :: "string option"
  l_baudrate_index :: "int option"
  l_beep :: "bool option"
  l_lock :: "bool option"
  l_mode :: "int option"
  l_preset_names :: "string list option"
  l_sources_names :: "string list option"
  l_sources_active :: "bool list"
  l_sources_edids :: "int list"
  l_outputs_names :: "string list option"
  l_outputs_cat_names :: "string list option"
  l_outputs_connected :: "bool list"
  l_outputs_cat_connected :: "bool list"
  l_outputs_enabled :: "bool list"
  l_outputs_cat_enabled :: "bool list"
  l_outputs_sources :: "int list"
  l_outputs_scalers :: "int list"
  l_sources_count :: "int option"
  l_outputs_count :: "int option"
  l_connected :: bool

text \<open>One awaited step after another: the first exception ends the sequence.\<close>

definition l_seq ::
  "(exn + unit) \<times> l_coordinator \<Rightarrow> (l_coordinator \<Rightarrow> (exn + unit) \<times> l_coordinator) \<Rightarrow>
   (exn + unit) \<times> l_coordinator" where
  "l_seq r f = (case r of (Inl e, c) \<Rightarrow> (Inl e, c) | (Inr _, c) \<Rightarrow> f c)"

definition l_async_update_status :: "l_device \<Rightarrow> l_coordinator \<Rightarrow> (exn + unit) \<times> l_coordinator" where
  "l_async_update_status dev c =
     (case ld_get_status dev of
        Inl e \<Rightarrow> (Inl e, c)
      | Inr status \<Rightarrow>
          (let c1 = c\<lparr>l_power := Some (ls_power status)\<rparr>;
               c2 = (if truthy (ls_model status) then c1\<lparr>l_model := ls_model status\<rparr> else c1);
               c3 = (if truthy (ls_macaddress status) then c2\<lparr>l_mac := ls_macaddress status\<rparr> else c2);
               c4 = (if truthy (ls_version status) then c3\<lparr>l_version := ls_version status\<rparr> else c3)
           in (Inr (), c4)))"

definition l_async_update_video_status ::
  "l_device \<Rightarrow> l_coordinator \<Rightarrow> (exn + unit) \<times> l_coordinator" where
  "l_async_update_video_status dev c =
     (case ld_get_video_status dev of
        Inl e \<Rightarrow> (Inl e, c)
      | Inr video_status \<Rightarrow>
          (let c1 = c\<lparr>l_power := Some (lv_power video_status),
                       l_outputs_sources := lv_selected_sources video_status,
                       l_preset_names := Some (lv_preset_names video_status)\<rparr>;
               c2 = (if truthy (lv_source_names video_status)
                     then c1\<lparr>l_sources_names := lv_source_names video_status\<rparr> else c1);
               c3 = (if truthy (lv_output_names video_status)
                     then c2\<lparr>l_outputs_names := lv_output_names video_status\<rparr> else c2);
               c4 = (if truthy (lv_output_cat_names video_status)
                     then c3\<lparr>l_outputs_cat_names := lv_output_cat_names video_status\<rparr> else c3)
           in (Inr (), c4)))"

definition l_async_update_output_status ::
  "l_device \<Rightarrow> l_coordinator \<Rightarrow> (exn + unit) \<times> l_coordinator" where
  "l_async_update_output_status dev c =
     (case ld_get_output_status dev of
        Inl e \<Rightarrow> (Inl e, c)
      | Inr output_status \<Rightarrow>
          (let c1 = c\<lparr>l_power := Some (lo_power output_status),
                       l_outputs_sources := lo_selected_sources output_status,
                       l_outputs_scalers := lo_selected_output_scalers output_status,
                       l_outputs_enabled := lo_enabled_outputs output_status,
                       l_outputs_cat_enabled := lo_enabled_cat_outputs output_status,
                       l_outputs_connected := lo_connected_outputs output_status,
                       l_outputs_cat_connected := lo_connected_cat_outputs output_status\<rparr>;
               c2 = (if truthy (lo_output_names output_status)
                     then c1\<lparr>l_outputs_names := lo_output_names output_status\<rparr> else c1);
               c3 = (if truthy (lo_output_cat_names output_status)
                     then c2\<lparr>l_outputs_cat_names := lo_output_cat_names output_status\<rparr> else c2)
           in (Inr (), c3)))"

definition l_async_update_source_status ::
  "l_device \<Rightarrow> l_coordinator \<Rightarrow> (exn + unit) \<times> l_coordinator" where
  "l_async_update_source_status dev c =
     (case ld_get_source_status dev of
        Inl e \<Rightarrow> (Inl e, c)
      | Inr source_status \<Rightarrow>
          (let c1 = c\<lparr>l_power := Some (lsrc_power source_status),
                       l_sources_edids := lsrc_edid_indexes source_status,
                       l_sources_active := lsrc_active_sources source_status\<rparr>;
               c2 = (if truthy (lsrc_source_names source_status)
                     then c1\<lparr>l_sources_names := lsrc_source_names source_status\<rparr> else c1)
           in (Inr (), c2)))"

definition l_async_update_system_status ::
  "l_device \<Rightarrow> l_coordinator \<Rightarrow> (exn + unit) \<times> l_coordinator" where
  "l_async_update_system_status dev c =
     (case ld_get_system_status dev of
        Inl e \<Rightarrow> (Inl e, c)
      | Inr system_status \<Rightarrow>
          (let c1 = c\<lparr>l_power := Some (lsys_power system_status),
                       l_baudrate_index := Some (lsys_baudrate_index system_status),
                       l_beep := Some (lsys_beep system_status),
                       l_lock := Some (lsys_lock system_status),
                       l_mode := Some (lsys_mode system_status)\<rparr>;
               c2 = (if truthy (lsys_version system_status)
                     then c1\<lparr>l_version := lsys_version system_status\<rparr> else c1)
           in (Inr (), c2)))"

text \<open>The four status updates that every cycle runs, in the order of the source.\<close>

definition l_update_all :: "l_device \<Rightarrow> l_coordinator \<Rightarrow> (exn + unit) \<times> l_coordinator" where
  "l_update_all dev c =
     l_seq (l_async_update_video_status dev c) (\<lambda>c1.
     l_seq (l_async_update_source_status dev c1) (\<lambda>c2.
     l_seq (l_async_update_output_status dev c2) (\<lambda>c3.
       l_async_update_system_status dev c3)))"

text \<open>
  The body of the outer \<^verbatim>\<open>try\<close>. The inner handler turns an authentication error
  into \<^verbatim>\<open>ConfigEntryAuthFailed\<close>, raised without a message; any other exception of
  \<^verbatim>\<open>connect\<close> goes on to the outer handlers.
\<close>

definition l_try_body :: "l_device \<Rightarrow> l_coordinator \<Rightarrow> (exn + unit) \<times> l_coordinator" where
  "l_try_body dev c =
     (if \<not> l_connected c then
        (case ld_connect_raises dev of
           Some err \<Rightarrow>
             (if err = JtechAuthError then (Inl (ConfigEntryAuthFailed [] err), c)
              else (Inl err, c))
         | None \<Rightarrow>
             (let c1 = c\<lparr>l_connected := True\<rparr>;
                  c2 = c1\<lparr>l_sources_count := Some (ld_sources_count dev),
                          l_outputs_count := Some (ld_outputs_count dev)\<rparr>
              in l_seq (l_async_update_status dev c2) (l_update_all dev)))
      else l_update_all dev c)"

text \<open>
  \<^verbatim>\<open>_async_update_data\<close> of the alternate coordinator. The first handler takes the
  two connection errors. The second one is written \<^verbatim>\<open>except err:\<close>; the name
  \<^verbatim>\<open>err\<close> is a local variable without a value there, so an exception that reaches
  this clause is replaced by \<^verbatim>\<open>UnboundLocalError\<close> and the body of the clause
  never runs.
\<close>

definition l_async_update_data :: "l_device \<Rightarrow> l_coordinator \<Rightarrow> (exn + unit) \<times> l_coordinator" where
  "l_async_update_data dev c =
     (case l_try_body dev c of
        (Inr u, c') \<Rightarrow> (Inr u, c')
      | (Inl e, c') \<Rightarrow>
          (if e = JtechConnectionError \<or> e = JtechConnectionTimeout
           then (Inr (), c'\<lparr>l_power := Some False, l_connected := False\<rparr>)
           else (Inl UnboundLocalError, c')))"

section \<open>Properties of outputs and sources\<close>

text \<open>
  The media player reads \<^verbatim>\<open>coordinator.sources[output_info.source - 1]\<close>: the source
  of an output is a valid 1-based index when it lies between 1 and the number of sources.
\<close>

definition valid_source_index :: "JtechSourceInfo list \<Rightarrow> JtechOutputInfo \<Rightarrow> bool" where
  "valid_source_index srcs out = (1 \<le> out_source out \<and> out_source out \<le> int (length srcs))"

definition in_range :: "int \<Rightarrow> int \<Rightarrow> int \<Rightarrow> bool" where
  "in_range lo hi v = (lo \<le> v \<and> v \<le> hi)"

text \<open>
  What a command method that is one pass-through call leaves behind: the answer of
  the client as the result, one more entry in the log of calls, and nothing else changed.
\<close>

definition single_passthrough ::
  "(client_call \<Rightarrow> exn + bool) \<Rightarrow> client_call \<Rightarrow> coordinator \<Rightarrow> (exn + bool) \<times> coordinator \<Rightarrow> bool" where
  "single_passthrough answer call c r =
     (fst r = answer call \<and>
      client_calls (snd r) = client_calls c @ [call] \<and>
      refresh_requests (snd r) = refresh_requests c \<and>
      data (snd r) = data c \<and> outputs (snd r) = outputs c \<and> sources (snd r) = sources c \<and>
      connected (snd r) = connected c \<and> client (snd r) = client c)"

section \<open>Concrete devices\<close>

text \<open>
  A matrix with the outputs TV1 and TV2 and the sources Blu-ray and Game; the argument
  is the array of selected sources that the device reports.
\<close>

definition example_output :: "int list \<Rightarrow> output_status_response" where
  "example_output sel =
     \<lparr> output_names = Some [''TV1'', ''TV2''], selected_sources = sel,
       output_cat_names = [''CAT1'', ''CAT2''], connected_outputs = [True, True],
       connected_cat_outputs = [False, False], enabled_outputs = [True, True],
       enabled_cat_outputs = [True, False], selected_output_scalers = [0, 0] \<rparr>"

definition example_source :: source_status_response where
  "example_source =
     \<lparr> source_names = Some [''Blu-ray'', ''Game''], active_sources = [True, False],
       edid_indexes = [3, 3] \<rparr>"

definition example_cec :: cec_status_response where
  "example_cec = \<lparr> selected_cec_sources = [], selected_cec_outputs = [0] \<rparr>"

definition example_statuses :: "int list \<Rightarrow> statuses" where
  "example_statuses sel =
     \<lparr> st_status = None, st_source = Some example_source, st_output = Some (example_output sel),
       st_cec = Some example_cec, st_network = None, st_system = None, st_web_details = None \<rparr>"

definition example_device :: "int list \<Rightarrow> device" where
  "example_device sel =
     \<lparr> connect_raises = None,
       get_status = Inr \<lparr> power = True, model = ''JTD-2x2'', version = ''1.0'' \<rparr>,
       get_source_status = Inr example_source,
       get_output_status = Inr (example_output sel),
       get_cec_status = Inr example_cec,
       get_network = Inr \<lparr> hostname = ''matrix'', ipaddress = ''192.168.1.20'',
         subnet = ''255.255.255.0'', gateway = ''192.168.1.1'', macaddress = ''00:11:22:33:44:55'',
         dhcp = False, telnetport = 23, tcpport = 8000 \<rparr>,
       get_system_status = Inr \<lparr> baudrate_index = 2, beep = False, lock = False, mode = 0 \<rparr>,
       get_web_details = Inr \<lparr> title = ''HDMI Matrix'' \<rparr> \<rparr>"

text \<open>The same device when the output status call raises.\<close>

definition output_fetch_fails :: device where
  "output_fetch_fails = (example_device [1, 2])\<lparr>get_output_status := Inl JtechConnectionError\<rparr>"

text \<open>The same device when the call for the title of the web page raises.\<close>

definition web_fetch_fails :: device where
  "web_fetch_fails = (example_device [1, 2])\<lparr>get_web_details := Inl JtechError\<rparr>"

text \<open>A device that refuses the credentials, and one that cannot be reached.\<close>

definition auth_fails :: device where
  "auth_fails = (example_device [1, 2])\<lparr>connect_raises := Some JtechAuthError\<rparr>"

definition unreachable :: device where
  "unreachable = (example_device [1, 2])\<lparr>connect_raises := Some JtechConnectionError\<rparr>"

definition admin :: coordinator where
  "admin = init ''admin'' ''secret''"

text \<open>The alternate coordinator after \<^verbatim>\<open>__init__\<close>, and a client whose connect fails.\<close>

definition l_init :: l_coordinator where
  "l_init =
     \<lparr> l_power = None, l_model = None, l_mac = None, l_version = None,
       l_baudrate_index = None, l_beep = None, l_lock = None, l_mode = None,
       l_preset_names = None, l_sources_names = Some [], l_sources_active = [],
       l_sources_edids = [], l_outputs_names = Some [], l_outputs_cat_names = Some [],
       l_outputs_connected = [], l_outputs_cat_connected = [], l_outputs_enabled = [],
       l_outputs_cat_enabled = [], l_outputs_sources = [], l_outputs_scalers = [],
       l_sources_count = None, l_outputs_count = None, l_connected = False \<rparr>"

definition l_unreachable :: "exn \<Rightarrow> l_device" where
  "l_unreachable err =
     \<lparr> ld_connect_raises = Some err, ld_sources_count = 2, ld_outputs_count = 2,
       ld_get_status = Inl err, ld_get_video_status = Inl err, ld_get_source_status = Inl err,
       ld_get_output_status = Inl err, ld_get_system_status = Inl err \<rparr>"

section \<open>The loops of the reconciliation\<close>

text \<open>
  The inner loop of \<^verbatim>\<open>_handle_source_update\<close> appends growing output numbers, all
  of them between 1 and the number of entries it has looked at.
\<close>

lemma collect_outputs_inv:
  "sorted_wrt (<) acc \<Longrightarrow> list_all (in_range 1 (int output_idx)) acc \<Longrightarrow>
   sorted_wrt (<) (collect_outputs idx output_idx sel acc) \<and>
   list_all (in_range 1 (int (output_idx + length sel))) (collect_outputs idx output_idx sel acc)"
proof (induction sel arbitrary: output_idx acc)
  case Nil
  then show ?case by simp
next
  case (Cons source rest)
  let ?acc = "if source = int idx then acc @ [int output_idx + 1] else acc"
  have s: "sorted_wrt (<) ?acc"
    using Cons.prems by (auto simp: sorted_wrt_append list_all_iff in_range_def)
  have b: "list_all (in_range 1 (int (Suc output_idx))) ?acc"
    using Cons.prems by (auto simp: list_all_iff in_range_def)
  from Cons.IH [OF s b] show ?case by simp
qed

text \<open>A source row is built only when the output status is there.\<close>

lemma source_row_outputs:
  assumes "source_row ss os cec idx name = Inr row"
  shows "\<exists>output_status. os = Some output_status \<and>
           src_outputs row = collect_outputs idx 0 (selected_sources output_status) []"
  using assms
  by (auto simp: source_row_def and_then_def py_attr_def py_index_def
      split: sum.splits option.splits if_splits)

lemma source_row_name:
  assumes "source_row ss os cec idx name = Inr row"
  shows "src_name row = name"
  using assms
  by (auto simp: source_row_def and_then_def py_attr_def py_index_def
      split: sum.splits option.splits if_splits)

lemma source_loop_all:
  assumes "source_loop ss os cec idx names acc = Inr rows"
    and "list_all P acc"
    and "\<And>i name row. source_row ss os cec i name = Inr row \<Longrightarrow> P row"
  shows "list_all P rows"
  using assms
proof (induction names arbitrary: idx acc)
  case Nil
  then show ?case by simp
next
  case (Cons name rest)
  from Cons.prems(1) obtain row where
    r: "source_row ss os cec idx name = Inr row" and
    l: "source_loop ss os cec (Suc idx) rest (acc @ [row]) = Inr rows"
    by (auto split: sum.splits)
  have "list_all P (acc @ [row])"
    using Cons.prems(2) Cons.prems(3) [OF r] by simp
  from Cons.IH [OF l this Cons.prems(3)] show ?case .
qed

lemma source_loop_length:
  "source_loop ss os cec idx names acc = Inr rows \<Longrightarrow> length rows = length acc + length names"
  by (induction names arbitrary: idx acc) (auto split: sum.splits)

text \<open>An output row copies the selected source of its position.\<close>

lemma output_row_source:
  assumes "output_row os cec idx name = Inr row"
  shows "idx < length (selected_sources os) \<and> out_source row = selected_sources os ! idx"
  using assms
  by (auto simp: output_row_def and_then_def py_attr_def py_index_def
      split: sum.splits option.splits if_splits)

lemma output_loop_sources:
  "output_loop os cec idx names acc = Inr rows \<Longrightarrow>
   length rows = length acc + length names \<and>
   map out_source rows = map out_source acc @ take (length names) (drop idx (selected_sources os)) \<and>
   (names = [] \<or> idx + length names \<le> length (selected_sources os))"
proof (induction names arbitrary: idx acc)
  case Nil
  then show ?case by simp
next
  case (Cons name rest)
  from Cons.prems obtain row where
    r: "output_row os cec idx name = Inr row" and
    l: "output_loop os cec (Suc idx) rest (acc @ [row]) = Inr rows"
    by (auto split: sum.splits)
  from output_row_source [OF r] have
    i: "idx < length (selected_sources os)" and v: "out_source row = selected_sources os ! idx"
    by simp_all
  have d: "drop idx (selected_sources os) = selected_sources os ! idx # drop (Suc idx) (selected_sources os)"
    using i by (simp add: Cons_nth_drop_Suc)
  from Cons.IH [OF l] show ?case
    using v d i by auto
qed

lemma handle_source_update_Some:
  assumes "handle_source_update sts = Inr (Some srcs)"
  shows "\<exists>ss names. st_source sts = Some ss \<and> source_names ss = Some names \<and> names \<noteq> [] \<and>
           source_loop ss (st_output sts) (st_cec sts) 0 names [] = Inr srcs"
  using assms
  by (auto simp: handle_source_update_def and_then_def split: option.splits if_splits sum.splits)

lemma handle_output_update_Some:
  assumes "handle_output_update sts = Inr (Some outs)"
  shows "\<exists>os names. st_output sts = Some os \<and> output_names os = Some names \<and> names \<noteq> [] \<and>
           output_loop os (st_cec sts) 0 names [] = Inr outs"
  using assms
  by (auto simp: handle_output_update_def and_then_def split: option.splits if_splits sum.splits)

section \<open>The poll cycle, case by case\<close>

text \<open>The fetched statuses depend on the device only.\<close>

lemma fst_fetch_status: "fst (fetch_status dev c) = fst (fetch_status dev c')"
  by (simp add: fetch_status_def)

lemma client_ensure_cases:
  "client_ensure dev c = (r, c1) \<Longrightarrow>
   outputs c1 = outputs c \<and> sources c1 = sources c \<and> data c1 = data c \<and>
   (case r of Inl e \<Rightarrow> \<not> connected c1 | Inr u \<Rightarrow> connected c1)"
  by (auto simp: client_ensure_def client_connect_def Let_def split: if_splits option.splits)

lemma cycle_success:
  assumes "async_update_data dev c = (Inr d, c')"
  shows "handle_output_update (fst (fetch_status dev c)) = Inr (outputs c') \<and>
         handle_source_update (fst (fetch_status dev c)) = Inr (sources c') \<and>
         d = combined_data (fst (fetch_status dev c)) \<and> connected c' \<and> data c' = data c"
proof -
  obtain r c1 where e: "client_ensure dev c = (r, c1)" by (cases "client_ensure dev c")
  obtain sts c2 where f: "fetch_status dev c1 = (sts, c2)" by (cases "fetch_status dev c1")
  have s: "sts = fst (fetch_status dev c)"
    using f fst_fetch_status [of dev c1 c] by simp
  have c2: "outputs c2 = outputs c1 \<and> sources c2 = sources c1 \<and> data c2 = data c1 \<and> connected c2 = connected c1"
    using f by (auto simp: fetch_status_def)
  from assms e f client_ensure_cases [OF e] c2 show ?thesis
    unfolding s [symmetric]
    by (auto simp: async_update_data_def update_failed_def Let_def split: sum.splits if_splits)
qed


text \<open>
  The combined status holds, under each key, the attribute of the response that owns the
  key, and nothing under the keys of a response that is absent.
\<close>

lemma combined_data_status:
  "combined_data sts ''power'' = map_option (\<lambda>s. VBool (power s)) (st_status sts) \<and>
   combined_data sts ''model'' = map_option (\<lambda>s. VStr (model s)) (st_status sts) \<and>
   combined_data sts ''version'' = map_option (\<lambda>s. VStr (version s)) (st_status sts)"
  by (simp add: combined_data_def Let_def split: option.splits)

lemma combined_data_network:
  "combined_data sts ''hostname'' = map_option (\<lambda>s. VStr (hostname s)) (st_network sts) \<and>
   combined_data sts ''ipaddress'' = map_option (\<lambda>s. VStr (ipaddress s)) (st_network sts) \<and>
   combined_data sts ''subnet'' = map_option (\<lambda>s. VStr (subnet s)) (st_network sts) \<and>
   combined_data sts ''gateway'' = map_option (\<lambda>s. VStr (gateway s)) (st_network sts) \<and>
   combined_data sts ''macaddress'' = map_option (\<lambda>s. VStr (macaddress s)) (st_network sts) \<and>
   combined_data sts ''dhcp'' = map_option (\<lambda>s. VBool (dhcp s)) (st_network sts) \<and>
   combined_data sts ''telnetport'' = map_option (\<lambda>s. VInt (telnetport s)) (st_network sts) \<and>
   combined_data sts ''tcpport'' = map_option (\<lambda>s. VInt (tcpport s)) (st_network sts)"
  by (simp add: combined_data_def Let_def split: option.splits)

lemma combined_data_system:
  "combined_data sts ''baudrate_index'' = map_option (\<lambda>s. VInt (baudrate_index s)) (st_system sts) \<and>
   combined_data sts ''beep'' = map_option (\<lambda>s. VBool (beep s)) (st_system sts) \<and>
   combined_data sts ''lock'' = map_option (\<lambda>s. VBool (lock s)) (st_system sts) \<and>
   combined_data sts ''mode'' = map_option (\<lambda>s. VInt (mode s)) (st_system sts)"
  by (simp add: combined_data_def Let_def split: option.splits)

lemma combined_data_web_details:
  "combined_data sts ''title'' = map_option (\<lambda>s. VStr (title s)) (st_web_details sts)"
  by (simp add: combined_data_def Let_def split: option.splits)

lemma fetch_status_fields:
  "st_status (fst (fetch_status dev c)) = filter_exception (get_status dev) \<and>
   st_network (fst (fetch_status dev c)) = filter_exception (get_network dev) \<and>
   st_system (fst (fetch_status dev c)) = filter_exception (get_system_status dev) \<and>
   st_web_details (fst (fetch_status dev c)) = filter_exception (get_web_details dev)"
  by (simp add: fetch_status_def)

text \<open>The refresh step of the platform around the two outcomes of a cycle.\<close>

lemma async_refresh_None:
  assumes "async_refresh dev c = (None, c')"
  shows "data c' = Some (combined_data (fst (fetch_status dev c))) \<and>
         handle_output_update (fst (fetch_status dev c)) = Inr (outputs c') \<and>
         handle_source_update (fst (fetch_status dev c)) = Inr (sources c')"
proof -
  obtain r c1 where u: "async_update_data dev c = (r, c1)" by (cases "async_update_data dev c")
  with assms obtain d where r: "r = Inr d" and c': "c' = c1\<lparr>data := Some d\<rparr>"
    by (auto simp: async_refresh_def split: sum.splits)
  from cycle_success [OF u [unfolded r]] c' show ?thesis by simp
qed


text \<open>The rows of a two-element loop, and the fields of an output row.\<close>

lemma output_row_fields:
  assumes "output_row os cec idx name = Inr row"
  shows "out_name row = name \<and>
         (\<exists>c. cec = Some c \<and> out_cec_selected row = (int idx \<in> set (selected_cec_outputs c)))"
  using assms
  by (auto simp: output_row_def and_then_def py_attr_def py_index_def
      split: sum.splits option.splits if_splits)

lemma output_loop_two:
  assumes "output_loop os cec 0 [a, b] [] = Inr outs"
  shows "\<exists>o0 o1. outs = [o0, o1] \<and> output_row os cec 0 a = Inr o0 \<and>
           output_row os cec (Suc 0) b = Inr o1"
  using assms by (auto split: sum.splits)

lemma source_loop_two:
  assumes "source_loop ss os cec 0 [a, b] [] = Inr srcs"
  shows "\<exists>s0 s1. srcs = [s0, s1] \<and> source_row ss os cec 0 a = Inr s0 \<and>
           source_row ss os cec (Suc 0) b = Inr s1"
  using assms by (auto split: sum.splits)

section \<open>Connecting\<close>

text \<open>
  A cycle whose connect call raises stops there: the error is mapped by the handlers of
  \<^verbatim>\<open>_client_connect\<close> and nothing but the log, the client and the flag changes. A
  cycle that starts unconnected always begins with a connect call.
\<close>

lemma connect_failure_step:
  assumes "\<not> connected c" and "connect_raises dev = Some err"
  shows "async_update_data dev c =
           (Inl (if err = JtechAuthError then ConfigEntryAuthFailed ERROR_AUTH_FAILED err
                 else if err = JtechConnectionError then UpdateFailed ERROR_CONNECT_FAILED err
                 else UpdateFailed ERROR_UNKNOWN err),
            c\<lparr>client := True, connected := False,
               client_calls := client_calls c @ [Call_connect (username c) (password c)]\<rparr>)"
  using assms
  by (simp add: async_update_data_def client_ensure_def client_connect_def Let_def)

lemma connect_attempted:
  assumes "\<not> connected c"
  shows "\<exists>rest. client_calls (snd (async_update_data dev c)) =
           client_calls c @ Call_connect (username c) (password c) # rest"
proof (cases "connect_raises dev")
  case (Some err)
  from connect_failure_step [OF assms Some] show ?thesis by simp
next
  case None
  then show ?thesis
    using assms
    by (auto simp: async_update_data_def client_ensure_def client_connect_def Let_def
        fetch_status_def update_failed_def split: sum.splits)
qed

section \<open>Evaluation of the concrete devices\<close>

lemmas ex_defs = example_device_def example_output_def example_source_def example_cec_def
  example_statuses_def admin_def init_def output_fetch_fails_def web_fetch_fails_def
  auth_fails_def unreachable_def

lemmas run_defs = async_refresh_def async_update_data_def client_ensure_def client_connect_def
  fetch_status_def filter_exception_def handle_output_update_def handle_source_update_def
  output_row_def source_row_def and_then_def py_index_def py_attr_def update_failed_def
  combined_data_def

section \<open>The claims\<close>

text \<open>
  C1. If the output-status fetch raises but every other status fetch succeeds, the poll
  cycle completes without an exception, the failing fetch is recorded as absent for that
  endpoint only, and the outputs list keeps its previous value (or stays empty in the
  first cycle).

  The code does not do this. \<^verbatim>\<open>_fetch_status\<close> records \<^verbatim>\<open>None\<close> for the output
  status only, as the claim says, but then \<^verbatim>\<open>_handle_output_update\<close> returns
  \<^verbatim>\<open>None\<close>, which is assigned to \<^verbatim>\<open>self.outputs\<close>, and
  \<^verbatim>\<open>_handle_source_update\<close> reads \<^verbatim>\<open>output_status.selected_sources\<close> of the absent
  status: the \<^verbatim>\<open>AttributeError\<close> is turned into \<^verbatim>\<open>UpdateFailed\<close>. The theorem
  evaluates the first cycle of a coordinator on the device whose output status call
  raises.
\<close>

theorem output_fetch_failure_aborts_cycle:
  "fst (fetch_status output_fetch_fails admin) =
     (example_statuses [1, 2])
       \<lparr> st_status := Some \<lparr> power = True, model = ''JTD-2x2'', version = ''1.0'' \<rparr>,
         st_output := None,
         st_network := Some \<lparr> hostname = ''matrix'', ipaddress = ''192.168.1.20'',
           subnet = ''255.255.255.0'', gateway = ''192.168.1.1'',
           macaddress = ''00:11:22:33:44:55'', dhcp = False, telnetport = 23, tcpport = 8000 \<rparr>,
         st_system := Some \<lparr> baudrate_index = 2, beep = False, lock = False, mode = 0 \<rparr>,
         st_web_details := Some \<lparr> title = ''HDMI Matrix'' \<rparr> \<rparr> \<and>
   fst (async_update_data output_fetch_fails admin) =
     Inl (UpdateFailed ERROR_FETCH_DATA_FAILED AttributeError) \<and>
   outputs admin = Some [] \<and>
   outputs (snd (async_update_data output_fetch_fails admin)) = None \<and>
   \<not> connected (snd (async_update_data output_fetch_fails admin))"
  by (simp add: ex_defs run_defs)

text \<open>
  C2. The scenario of the specification: output names TV1 and TV2, source names Blu-ray
  and Game, selected sources \<open>[1, 0]\<close>, CEC-selected outputs \<open>{0}\<close>. The claim
  expects the outputs \<open>[1]\<close> for sources[0] and \<open>[0]\<close> for sources[1].

  Whatever the other arrays hold, when the reconciliation goes through, outputs[0] is
  TV1 with source 1 and selected for CEC, and outputs[1] is TV2 with source 0 and not
  selected, as the claim says. The two sources are Blu-ray and Game, and the outputs
  listed for a source are output numbers counted from 1, because
  \<^verbatim>\<open>_handle_source_update\<close> appends \<^verbatim>\<open>output_idx + 1\<close>: every entry lies between
  1 and 2, so no list holds 0. Which source lists which output is left open here; it
  is the subject of C3.
\<close>

theorem scenario_reconciliation:
  assumes "st_output sts = Some os" and "output_names os = Some [''TV1'', ''TV2'']"
    and "selected_sources os = [1, 0]"
    and "st_source sts = Some ss" and "source_names ss = Some [''Blu-ray'', ''Game'']"
    and "st_cec sts = Some cec" and "set (selected_cec_outputs cec) = {0}"
    and "handle_output_update sts = Inr outs" and "handle_source_update sts = Inr srcs"
  shows "\<exists>o0 o1 s0 s1.
           outs = Some [o0, o1] \<and>
           out_name o0 = ''TV1'' \<and> out_source o0 = 1 \<and> out_cec_selected o0 \<and>
           out_name o1 = ''TV2'' \<and> out_source o1 = 0 \<and> \<not> out_cec_selected o1 \<and>
           srcs = Some [s0, s1] \<and> src_name s0 = ''Blu-ray'' \<and> src_name s1 = ''Game'' \<and>
           list_all (in_range 1 2) (src_outputs s0) \<and> list_all (in_range 1 2) (src_outputs s1)"
proof -
  have "\<exists>rows. outs = Some rows \<and>
          output_loop os (Some cec) 0 [''TV1'', ''TV2''] [] = Inr rows"
    using assms(8)
    by (cases "output_loop os (Some cec) 0 [''TV1'', ''TV2''] []")
       (simp_all add: handle_output_update_def assms(1,2,6) and_then_def del: output_loop.simps)
  then obtain o0 o1 where outs: "outs = Some [o0, o1]"
    and o0: "output_row os (Some cec) 0 ''TV1'' = Inr o0"
    and o1: "output_row os (Some cec) (Suc 0) ''TV2'' = Inr o1"
    using output_loop_two by blast
  have "\<exists>rows. srcs = Some rows \<and>
          source_loop ss (Some os) (Some cec) 0 [''Blu-ray'', ''Game''] [] = Inr rows"
    using assms(9)
    by (cases "source_loop ss (Some os) (Some cec) 0 [''Blu-ray'', ''Game''] []")
       (simp_all add: handle_source_update_def assms(1,4,5,6) and_then_def del: source_loop.simps)
  then obtain s0 s1 where srcs: "srcs = Some [s0, s1]"
    and s0: "source_row ss (Some os) (Some cec) 0 ''Blu-ray'' = Inr s0"
    and s1: "source_row ss (Some os) (Some cec) (Suc 0) ''Game'' = Inr s1"
    using source_loop_two by blast
  have p0: "out_name o0 = ''TV1'' \<and> out_source o0 = 1 \<and> out_cec_selected o0"
    using output_row_fields [OF o0] output_row_source [OF o0] assms(3) assms(7) by simp
  have p1: "out_name o1 = ''TV2'' \<and> out_source o1 = 0 \<and> \<not> out_cec_selected o1"
    using output_row_fields [OF o1] output_row_source [OF o1] assms(3) assms(7) by simp
  have n0: "src_name s0 = ''Blu-ray''"
    using source_row_name [OF s0] .
  have n1: "src_name s1 = ''Game''"
    using source_row_name [OF s1] .
  have r: "list_all (in_range 1 2) (collect_outputs i 0 (selected_sources os) [])" for i
    using collect_outputs_inv [of "[]" 0 i "selected_sources os"] assms(3) by simp
  have q0: "list_all (in_range 1 2) (src_outputs s0)"
    using source_row_outputs [OF s0] r by auto
  have q1: "list_all (in_range 1 2) (src_outputs s1)"
    using source_row_outputs [OF s1] r by auto
  from outs srcs p0 p1 n0 n1 q0 q1 show ?thesis by blast
qed

text \<open>The scenario on the example matrix, as a witness of the theorem for C2.\<close>

theorem scenario_reconciliation_witness:
  "\<exists>o0 o1 s0 s1.
     projr (handle_output_update (example_statuses [1, 0])) = Some [o0, o1] \<and>
     out_name o0 = ''TV1'' \<and> out_source o0 = 1 \<and> out_cec_selected o0 \<and>
     out_name o1 = ''TV2'' \<and> out_source o1 = 0 \<and> \<not> out_cec_selected o1 \<and>
     projr (handle_source_update (example_statuses [1, 0])) = Some [s0, s1] \<and>
     src_name s0 = ''Blu-ray'' \<and> src_name s1 = ''Game'' \<and>
     list_all (in_range 1 2) (src_outputs s0) \<and> list_all (in_range 1 2) (src_outputs s1)"
proof (rule scenario_reconciliation
    [of "example_statuses [1, 0]" "example_output [1, 0]" example_source example_cec])
  show "st_output (example_statuses [1, 0]) = Some (example_output [1, 0])"
    by (simp add: ex_defs)
  show "output_names (example_output [1, 0]) = Some [''TV1'', ''TV2'']"
    by (simp add: ex_defs)
  show "selected_sources (example_output [1, 0]) = [1, 0]"
    by (simp add: ex_defs)
  show "st_source (example_statuses [1, 0]) = Some example_source"
    by (simp add: ex_defs)
  show "source_names example_source = Some [''Blu-ray'', ''Game'']"
    by (simp add: ex_defs)
  show "st_cec (example_statuses [1, 0]) = Some example_cec"
    by (simp add: ex_defs)
  show "set (selected_cec_outputs example_cec) = {0}"
    by (simp add: ex_defs)
  show "handle_output_update (example_statuses [1, 0]) =
          Inr (projr (handle_output_update (example_statuses [1, 0])))"
    by (simp add: ex_defs run_defs)
  show "handle_source_update (example_statuses [1, 0]) =
          Inr (projr (handle_source_update (example_statuses [1, 0])))"
    by (simp add: ex_defs run_defs)
qed

text \<open>
  The claim C2 as it is written fails on the scenario: the lists of outputs of the two
  sources are not \<open>[1]\<close> and \<open>[0]\<close>, and neither list holds the number 0.
\<close>

theorem scenario_reconciliation_counterexample:
  "map_sum id (map_option (map src_outputs)) (handle_source_update (example_statuses [1, 0]))
     \<noteq> Inr (Some [[1], [0]]) \<and>
   map_sum id (map_option (map (list_all (in_range 1 2) \<circ> src_outputs)))
     (handle_source_update (example_statuses [1, 0])) = Inr (Some [True, True]) \<and>
   \<not> list_all (in_range 1 2) [0]"
  by (simp add: ex_defs run_defs in_range_def)

text \<open>
  C3. For each source \<open>s\<close>, its list of outputs is exactly the set of outputs whose
  source is \<open>s\<close>, under one indexing convention for both directions.

  The code mixes the conventions: \<^verbatim>\<open>_handle_source_update\<close> compares the selected
  source with the 0-based position of the source and appends the 1-based number of the
  output, while the media player reads \<^verbatim>\<open>sources[output_info.source - 1]\<close>. On the
  matrix where output 1 shows source 1 and output 2 shows source 2, the first source
  gets no output and the second source gets output 1. Counting both from 1 the lists
  would be \<open>[1]\<close> and \<open>[2]\<close>, counting both from 0 they would be \<open>[]\<close> and
  \<open>[0]\<close>.
\<close>

theorem inverse_mapping_mixes_conventions:
  "map_sum id (map_option (map out_source)) (handle_output_update (example_statuses [1, 2]))
     = Inr (Some [1, 2]) \<and>
   map_sum id (map_option (map src_outputs)) (handle_source_update (example_statuses [1, 2]))
     = Inr (Some [[], [1]]) \<and>
   map_sum id (map_option (map src_outputs)) (handle_source_update (example_statuses [1, 2]))
     \<noteq> Inr (Some [[1], [2]]) \<and>
   map_sum id (map_option (map src_outputs)) (handle_source_update (example_statuses [1, 2]))
     \<noteq> Inr (Some [[], [0]])"
  by (simp add: ex_defs run_defs)

text \<open>
  C4. In a successful poll cycle that produces outputs and sources, every source of an
  output is a valid 1-based index into the produced sources.

  The coordinator copies what the device reports and checks nothing: the source of
  every output is the selected source at its position, so the sources of the outputs are
  all valid exactly when the reported values are.
\<close>

theorem output_source_is_reported_value:
  assumes "async_update_data dev c = (Inr d, c')"
    and "outputs c' = Some outs" and "sources c' = Some srcs"
    and "get_output_status dev = Inr os"
  shows "map out_source outs = take (length outs) (selected_sources os) \<and>
         list_all (valid_source_index srcs) outs =
           list_all (in_range 1 (int (length srcs))) (take (length outs) (selected_sources os))"
proof -
  from cycle_success [OF assms(1)] assms(2)
  have h: "handle_output_update (fst (fetch_status dev c)) = Inr (Some outs)" by simp
  have o: "st_output (fst (fetch_status dev c)) = Some os"
    using assms(4) by (simp add: fetch_status_def filter_exception_def)
  from handle_output_update_Some [OF h] o obtain names where
    l: "output_loop os (st_cec (fst (fetch_status dev c))) 0 names [] = Inr outs"
    by auto
  from output_loop_sources [OF l]
  have m: "map out_source outs = take (length outs) (selected_sources os)" by simp
  have "list_all (valid_source_index srcs) outs =
        list_all (in_range 1 (int (length srcs))) (map out_source outs)"
    by (simp add: list_all_iff valid_source_index_def in_range_def)
  with m show ?thesis by simp
qed

text \<open>A cycle on the example matrix, as a witness of the theorem for C4.\<close>

theorem output_source_is_reported_value_witness:
  "fst (async_update_data (example_device [1, 2]) admin) =
     Inr (combined_data (fst (fetch_status (example_device [1, 2]) admin))) \<and>
   map out_source (the (outputs (snd (async_update_data (example_device [1, 2]) admin)))) =
     [1, 2] \<and>
   list_all
     (valid_source_index (the (sources (snd (async_update_data (example_device [1, 2]) admin)))))
     (the (outputs (snd (async_update_data (example_device [1, 2]) admin))))"
proof -
  let ?r = "async_update_data (example_device [1, 2]) admin"
  have f: "fst ?r = Inr (combined_data (fst (fetch_status (example_device [1, 2]) admin)))"
    by (simp add: ex_defs run_defs)
  then have a: "?r = (Inr (combined_data (fst (fetch_status (example_device [1, 2]) admin))), snd ?r)"
    by (metis prod.collapse)
  have b: "outputs (snd ?r) = Some (the (outputs (snd ?r)))"
    by (simp add: ex_defs run_defs)
  have c: "sources (snd ?r) = Some (the (sources (snd ?r)))"
    by (simp add: ex_defs run_defs)
  have d: "get_output_status (example_device [1, 2]) = Inr (example_output [1, 2])"
    by (simp add: ex_defs)
  have e: "length (the (outputs (snd ?r))) = 2" "length (the (sources (snd ?r))) = 2"
    by (simp_all add: ex_defs run_defs)
  have g: "map out_source (the (outputs (snd ?r))) =
             take (length (the (outputs (snd ?r)))) (selected_sources (example_output [1, 2])) \<and>
           list_all (valid_source_index (the (sources (snd ?r)))) (the (outputs (snd ?r))) =
             list_all (in_range 1 (int (length (the (sources (snd ?r))))))
               (take (length (the (outputs (snd ?r)))) (selected_sources (example_output [1, 2])))"
    by (rule output_source_is_reported_value [OF a b c d])
  show ?thesis
    using f g e by (simp add: example_output_def in_range_def)
qed

text \<open>
  The claim C4 as it is written fails on the scenario of the specification itself: the
  cycle goes through, there are two sources, and output 2 has source 0.
\<close>

theorem output_source_counterexample:
  "fst (async_refresh (example_device [1, 0]) admin) = None \<and>
   map out_source (the (outputs (snd (async_refresh (example_device [1, 0]) admin)))) = [1, 0] \<and>
   length (the (sources (snd (async_refresh (example_device [1, 0]) admin)))) = 2 \<and>
   \<not> list_all
       (valid_source_index (the (sources (snd (async_refresh (example_device [1, 0]) admin)))))
       (the (outputs (snd (async_refresh (example_device [1, 0]) admin))))"
  by (simp add: ex_defs run_defs valid_source_index_def)

text \<open>
  C5. When the connect step fails, an authentication failure raises the
  reauthentication-required error, a connection failure raises the generic error with the
  connect-failed message (and every failure that is not an authentication failure raises
  the generic error), the connected flag is false afterwards, and the next cycle calls
  connect again.
\<close>

theorem connect_failure:
  assumes "\<not> connected c" and "connect_raises dev = Some err"
  shows "(err = JtechAuthError \<longrightarrow>
            fst (async_update_data dev c) = Inl (ConfigEntryAuthFailed ERROR_AUTH_FAILED err)) \<and>
         (err = JtechConnectionError \<longrightarrow>
            fst (async_update_data dev c) = Inl (UpdateFailed ERROR_CONNECT_FAILED err)) \<and>
         (err \<noteq> JtechAuthError \<longrightarrow>
            (\<exists>message. fst (async_update_data dev c) = Inl (UpdateFailed message err))) \<and>
         \<not> connected (snd (async_update_data dev c)) \<and>
         (\<exists>rest. client_calls (snd (async_update_data next_dev (snd (async_update_data dev c)))) =
            client_calls (snd (async_update_data dev c)) @
            Call_connect (username c) (password c) # rest)"
proof -
  let ?c' = "snd (async_update_data dev c)"
  have n: "\<not> connected ?c'" and u: "username ?c' = username c" and p: "password ?c' = password c"
    using connect_failure_step [OF assms] by simp_all
  from connect_attempted [OF n, of next_dev] u p
  have "\<exists>rest. client_calls (snd (async_update_data next_dev ?c')) =
          client_calls ?c' @ Call_connect (username c) (password c) # rest"
    by simp
  with n show ?thesis
    using connect_failure_step [OF assms] by simp
qed

text \<open>A refused login and an unreachable device, as a witness of the theorem for C5.\<close>

theorem connect_failure_witness:
  "fst (async_update_data auth_fails admin) =
     Inl (ConfigEntryAuthFailed ERROR_AUTH_FAILED JtechAuthError) \<and>
   fst (async_update_data unreachable admin) =
     Inl (UpdateFailed ERROR_CONNECT_FAILED JtechConnectionError) \<and>
   \<not> connected (snd (async_update_data auth_fails admin)) \<and>
   \<not> connected (snd (async_update_data unreachable admin)) \<and>
   client_calls (snd (async_update_data auth_fails (snd (async_update_data auth_fails admin)))) =
     [Call_connect ''admin'' ''secret'', Call_connect ''admin'' ''secret'']"
proof -
  have a: "\<not> connected admin"
    by (simp add: ex_defs)
  have b: "connect_raises auth_fails = Some JtechAuthError"
    by (simp add: ex_defs)
  have c: "connect_raises unreachable = Some JtechConnectionError"
    by (simp add: ex_defs)
  show ?thesis
    using connect_failure [OF a b, of auth_fails] connect_failure [OF a c, of unreachable]
    by (simp add: ex_defs run_defs)
qed

text \<open>
  C6. If the connect step fails with a connection error or a timeout, the poll cycle
  completes without raising, with power false and connected false.

  This is what the alternate coordinator of \<^verbatim>\<open>_coordinator.py\<close> does: its first
  handler takes both errors and sets the two attributes. The coordinator of the
  integration raises \<^verbatim>\<open>UpdateFailed\<close> with the connect-failed message instead, and has
  no power attribute to set.
\<close>

theorem connection_error_device_off:
  assumes "\<not> l_connected lc" and "ld_connect_raises ldev = Some err"
    and "err = JtechConnectionError \<or> err = JtechConnectionTimeout"
    and "\<not> connected c" and "connect_raises dev = Some JtechConnectionError"
  shows "fst (l_async_update_data ldev lc) = Inr () \<and>
         l_power (snd (l_async_update_data ldev lc)) = Some False \<and>
         \<not> l_connected (snd (l_async_update_data ldev lc)) \<and>
         fst (async_update_data dev c) =
           Inl (UpdateFailed ERROR_CONNECT_FAILED JtechConnectionError) \<and>
         \<not> connected (snd (async_update_data dev c))"
proof -
  have "l_try_body ldev lc = (Inl err, lc)"
    using assms(1,2,3) by (auto simp: l_try_body_def)
  then have "l_async_update_data ldev lc = (Inr (), lc\<lparr>l_power := Some False, l_connected := False\<rparr>)"
    using assms(3) by (auto simp: l_async_update_data_def)
  then show ?thesis
    using connect_failure_step [OF assms(4,5)] by simp
qed

text \<open>A timeout on the alternate coordinator, as a witness of the theorem for C6.\<close>

theorem connection_error_device_off_witness:
  "l_async_update_data (l_unreachable JtechConnectionTimeout) l_init =
     (Inr (), l_init\<lparr>l_power := Some False\<rparr>) \<and>
   \<not> l_connected l_init \<and>
   fst (async_update_data unreachable admin) =
     Inl (UpdateFailed ERROR_CONNECT_FAILED JtechConnectionError)"
proof -
  have a: "\<not> l_connected l_init" by (simp add: l_init_def)
  have b: "ld_connect_raises (l_unreachable JtechConnectionTimeout) = Some JtechConnectionTimeout"
    by (simp add: l_unreachable_def)
  have c: "\<not> connected admin" by (simp add: ex_defs)
  have d: "connect_raises unreachable = Some JtechConnectionError" by (simp add: ex_defs)
  show ?thesis
    using connection_error_device_off [OF a b _ c d] a
    by (simp add: l_async_update_data_def l_try_body_def l_unreachable_def l_init_def)
qed

text \<open>
  The claim C6 as it is written fails on the coordinator of the integration: the cycle
  on the unreachable device raises.
\<close>

theorem connection_error_counterexample:
  "fst (async_update_data unreachable admin) =
     Inl (UpdateFailed ERROR_CONNECT_FAILED JtechConnectionError) \<and>
   \<not> connected (snd (async_update_data unreachable admin))"
  by (simp add: ex_defs run_defs)

text \<open>
  C7. Every command method of the coordinator makes exactly one call to the
  corresponding method of the device client, returns the answer of that call unchanged,
  and neither requests nor performs a refresh. The client exists from the first poll
  cycle on.
\<close>

theorem commands_pass_through:
  assumes "client c"
  shows "single_passthrough answer (Call_set_output_stream output True) c
           (async_enable_output answer output c) \<and>
         single_passthrough answer (Call_set_output_cat_stream output True) c
           (async_enable_cat_output answer output c) \<and>
         single_passthrough answer (Call_set_output_stream output False) c
           (async_disable_output answer output c) \<and>
         single_passthrough answer (Call_set_output_cat_stream output False) c
           (async_disable_cat_output answer output c) \<and>
         single_passthrough answer (Call_set_video_source output source) c
           (async_select_source answer output source c) \<and>
         single_passthrough answer (Call_send_cec_output output command) c
           (async_send_cec_output answer output command c) \<and>
         single_passthrough answer (Call_send_cec_source source command) c
           (async_send_cec_source answer source command c) \<and>
         single_passthrough answer (Call_set_power True) c (async_power_on answer c) \<and>
         single_passthrough answer (Call_set_power False) c (async_power_off answer c)"
proof -
  have "single_passthrough answer call c (client_command answer call c)" for call
    using assms by (simp add: single_passthrough_def client_command_def)
  then show ?thesis
    by (simp add: async_enable_output_def async_enable_cat_output_def async_disable_output_def
        async_disable_cat_output_def async_select_source_def async_send_cec_output_def
        async_send_cec_source_def async_power_on_def async_power_off_def)
qed

text \<open>Two commands after the first cycle, as a witness of the theorem for C7.\<close>

theorem commands_pass_through_witness:
  "client (snd (async_refresh (example_device [1, 2]) admin)) \<and>
   fst (async_select_source (\<lambda>call. Inr (call = Call_set_video_source 2 1)) 2 1
          (snd (async_refresh (example_device [1, 2]) admin))) = Inr True \<and>
   fst (async_power_off (\<lambda>call. Inr (call = Call_set_video_source 2 1))
          (snd (async_refresh (example_device [1, 2]) admin))) = Inr False \<and>
   client_calls (snd (async_power_off (\<lambda>call. Inr (call = Call_set_video_source 2 1))
          (snd (async_refresh (example_device [1, 2]) admin)))) =
     client_calls (snd (async_refresh (example_device [1, 2]) admin)) @ [Call_set_power False]"
proof -
  have a: "client (snd (async_refresh (example_device [1, 2]) admin))"
    by (simp add: ex_defs run_defs)
  show ?thesis
    using commands_pass_through [OF a, of "\<lambda>call. Inr (call = Call_set_video_source 2 1)" 2 1 0] a
    by (simp add: single_passthrough_def)
qed

text \<open>
  C8. In the combined status that a poll cycle publishes, a scalar field whose fetch
  failed keeps the value of the previous cycle, and a field whose fetch succeeded takes
  the fresh value.

  The second half holds. For the first half the code does something else:
  \<^verbatim>\<open>combined_data\<close> starts as an empty dictionary in every cycle, so the keys of a
  failed fetch are missing from the published record.
\<close>

theorem combined_status_rebuilt:
  assumes "async_refresh dev c = (None, c')"
  shows "\<exists>d. data c' = Some d \<and>
    (case get_status dev of
       Inl e \<Rightarrow> d ''power'' = None \<and> d ''model'' = None \<and> d ''version'' = None
     | Inr s \<Rightarrow> d ''power'' = Some (VBool (power s)) \<and> d ''model'' = Some (VStr (model s)) \<and>
         d ''version'' = Some (VStr (version s))) \<and>
    (case get_network dev of
       Inl e \<Rightarrow> d ''hostname'' = None \<and> d ''ipaddress'' = None \<and> d ''subnet'' = None \<and>
         d ''gateway'' = None \<and> d ''macaddress'' = None \<and> d ''dhcp'' = None \<and>
         d ''telnetport'' = None \<and> d ''tcpport'' = None
     | Inr n \<Rightarrow> d ''hostname'' = Some (VStr (hostname n)) \<and>
         d ''ipaddress'' = Some (VStr (ipaddress n)) \<and> d ''subnet'' = Some (VStr (subnet n)) \<and>
         d ''gateway'' = Some (VStr (gateway n)) \<and>
         d ''macaddress'' = Some (VStr (macaddress n)) \<and> d ''dhcp'' = Some (VBool (dhcp n)) \<and>
         d ''telnetport'' = Some (VInt (telnetport n)) \<and>
         d ''tcpport'' = Some (VInt (tcpport n))) \<and>
    (case get_system_status dev of
       Inl e \<Rightarrow> d ''baudrate_index'' = None \<and> d ''beep'' = None \<and> d ''lock'' = None \<and>
         d ''mode'' = None
     | Inr y \<Rightarrow> d ''baudrate_index'' = Some (VInt (baudrate_index y)) \<and>
         d ''beep'' = Some (VBool (beep y)) \<and> d ''lock'' = Some (VBool (lock y)) \<and>
         d ''mode'' = Some (VInt (mode y))) \<and>
    (case get_web_details dev of
       Inl e \<Rightarrow> d ''title'' = None
     | Inr w \<Rightarrow> d ''title'' = Some (VStr (title w)))"
proof -
  let ?d = "combined_data (fst (fetch_status dev c))"
  have d: "data c' = Some ?d"
    using async_refresh_None [OF assms] by simp
  have s: "case get_status dev of
       Inl e \<Rightarrow> ?d ''power'' = None \<and> ?d ''model'' = None \<and> ?d ''version'' = None
     | Inr s \<Rightarrow> ?d ''power'' = Some (VBool (power s)) \<and> ?d ''model'' = Some (VStr (model s)) \<and>
         ?d ''version'' = Some (VStr (version s))"
    by (simp add: combined_data_status fetch_status_fields filter_exception_def split: sum.splits)
  have n: "case get_network dev of
       Inl e \<Rightarrow> ?d ''hostname'' = None \<and> ?d ''ipaddress'' = None \<and> ?d ''subnet'' = None \<and>
         ?d ''gateway'' = None \<and> ?d ''macaddress'' = None \<and> ?d ''dhcp'' = None \<and>
         ?d ''telnetport'' = None \<and> ?d ''tcpport'' = None
     | Inr n \<Rightarrow> ?d ''hostname'' = Some (VStr (hostname n)) \<and>
         ?d ''ipaddress'' = Some (VStr (ipaddress n)) \<and> ?d ''subnet'' = Some (VStr (subnet n)) \<and>
         ?d ''gateway'' = Some (VStr (gateway n)) \<and>
         ?d ''macaddress'' = Some (VStr (macaddress n)) \<and> ?d ''dhcp'' = Some (VBool (dhcp n)) \<and>
         ?d ''telnetport'' = Some (VInt (telnetport n)) \<and>
         ?d ''tcpport'' = Some (VInt (tcpport n))"
    by (simp add: combined_data_network fetch_status_fields filter_exception_def split: sum.splits)
  have y: "case get_system_status dev of
       Inl e \<Rightarrow> ?d ''baudrate_index'' = None \<and> ?d ''beep'' = None \<and> ?d ''lock'' = None \<and>
         ?d ''mode'' = None
     | Inr y \<Rightarrow> ?d ''baudrate_index'' = Some (VInt (baudrate_index y)) \<and>
         ?d ''beep'' = Some (VBool (beep y)) \<and> ?d ''lock'' = Some (VBool (lock y)) \<and>
         ?d ''mode'' = Some (VInt (mode y))"
    by (simp add: combined_data_system fetch_status_fields filter_exception_def split: sum.splits)
  have w: "case get_web_details dev of
       Inl e \<Rightarrow> ?d ''title'' = None
     | Inr w \<Rightarrow> ?d ''title'' = Some (VStr (title w))"
    by (simp add: combined_data_web_details fetch_status_fields filter_exception_def split: sum.splits)
  from d s n y w show ?thesis by blast
qed

text \<open>
  The cycle in which the title of the web page cannot be fetched, as a witness of the
  theorem for C8.
\<close>

theorem combined_status_rebuilt_witness:
  "fst (async_refresh web_fetch_fails admin) = None \<and>
   the (data (snd (async_refresh web_fetch_fails admin))) ''title'' = None \<and>
   the (data (snd (async_refresh web_fetch_fails admin))) ''power'' = Some (VBool True) \<and>
   the (data (snd (async_refresh web_fetch_fails admin))) ''tcpport'' = Some (VInt 8000)"
proof -
  have f: "fst (async_refresh web_fetch_fails admin) = None"
    by (simp add: ex_defs run_defs)
  then have a: "async_refresh web_fetch_fails admin = (None, snd (async_refresh web_fetch_fails admin))"
    by (metis prod.collapse)
  have g: "get_status web_fetch_fails = Inr \<lparr> power = True, model = ''JTD-2x2'', version = ''1.0'' \<rparr>"
    "get_web_details web_fetch_fails = Inl JtechError"
    "telnetport (projr (get_network web_fetch_fails)) = 23"
    "tcpport (projr (get_network web_fetch_fails)) = 8000"
    "isl (get_network web_fetch_fails) = False"
    by (simp_all add: ex_defs)
  from combined_status_rebuilt [OF a] obtain d where
    d: "data (snd (async_refresh web_fetch_fails admin)) = Some d" and
    s: "case get_status web_fetch_fails of
          Inl e \<Rightarrow> d ''power'' = None \<and> d ''model'' = None \<and> d ''version'' = None
        | Inr s \<Rightarrow> d ''power'' = Some (VBool (power s)) \<and> d ''model'' = Some (VStr (model s)) \<and>
            d ''version'' = Some (VStr (version s))" and
    n: "case get_network web_fetch_fails of
          Inl e \<Rightarrow> d ''hostname'' = None \<and> d ''ipaddress'' = None \<and> d ''subnet'' = None \<and>
            d ''gateway'' = None \<and> d ''macaddress'' = None \<and> d ''dhcp'' = None \<and>
            d ''telnetport'' = None \<and> d ''tcpport'' = None
        | Inr n \<Rightarrow> d ''hostname'' = Some (VStr (hostname n)) \<and>
            d ''ipaddress'' = Some (VStr (ipaddress n)) \<and> d ''subnet'' = Some (VStr (subnet n)) \<and>
            d ''gateway'' = Some (VStr (gateway n)) \<and>
            d ''macaddress'' = Some (VStr (macaddress n)) \<and> d ''dhcp'' = Some (VBool (dhcp n)) \<and>
            d ''telnetport'' = Some (VInt (telnetport n)) \<and>
            d ''tcpport'' = Some (VInt (tcpport n))" and
    w: "case get_web_details web_fetch_fails of
          Inl e \<Rightarrow> d ''title'' = None
        | Inr w \<Rightarrow> d ''title'' = Some (VStr (title w))"
    by blast
  have "d ''title'' = None"
    using w g(2) by simp
  moreover have "d ''power'' = Some (VBool True)"
    using s g(1) by simp
  moreover have "d ''tcpport'' = Some (VInt 8000)"
    using n g(4,5) by (cases "get_network web_fetch_fails") simp_all
  ultimately show ?thesis
    using f d by simp
qed

text \<open>
  The claim C8 as it is written fails when a fetch fails after a cycle in which it
  succeeded: the title published by the first cycle is gone after the second.
\<close>

theorem combined_status_counterexample:
  "the (data (snd (async_refresh (example_device [1, 2]) admin))) ''title'' =
     Some (VStr ''HDMI Matrix'') \<and>
   fst (async_refresh web_fetch_fails (snd (async_refresh (example_device [1, 2]) admin))) =
     None \<and>
   the (data (snd (async_refresh web_fetch_fails
                     (snd (async_refresh (example_device [1, 2]) admin))))) ''title'' = None"
  by (simp add: ex_defs run_defs)




text \<open>
  C10. In every source list that the reconciliation produces, the outputs of a source
  are strictly increasing and lie between 1 and the length of the fetched array of
  selected sources.
\<close>

theorem source_outputs_increasing_in_range:
  assumes "handle_source_update sts = Inr (Some srcs)"
  shows "\<exists>output_status. st_output sts = Some output_status \<and>
           (\<forall>s\<in>set srcs. sorted_wrt (<) (src_outputs s) \<and>
              (\<forall>v\<in>set (src_outputs s).
                 1 \<le> v \<and> v \<le> int (length (selected_sources output_status))))"
proof -
  from handle_source_update_Some [OF assms] obtain ss names where
    n: "names \<noteq> []" and
    l: "source_loop ss (st_output sts) (st_cec sts) 0 names [] = Inr srcs"
    by blast
  from source_loop_length [OF l] n have "srcs \<noteq> []" by auto
  then obtain row rest where srcs: "srcs = row # rest" by (cases srcs) auto
  let ?Q = "\<lambda>s. \<exists>os i. st_output sts = Some os \<and>
                     src_outputs s = collect_outputs i 0 (selected_sources os) []"
  have a: "list_all ?Q srcs"
  proof (rule source_loop_all [OF l])
    show "list_all ?Q []" by simp
  next
    fix i name r
    assume "source_row ss (st_output sts) (st_cec sts) i name = Inr r"
    from source_row_outputs [OF this] show "?Q r" by blast
  qed
  then obtain os where os: "st_output sts = Some os"
    using srcs by auto
  have "sorted_wrt (<) (src_outputs s) \<and>
        (\<forall>v\<in>set (src_outputs s). 1 \<le> v \<and> v \<le> int (length (selected_sources os)))"
    if "s \<in> set srcs" for s
  proof -
    from that a os obtain i where "src_outputs s = collect_outputs i 0 (selected_sources os) []"
      by (auto simp: list_all_iff)
    with collect_outputs_inv [of "[]" 0 i "selected_sources os"] show ?thesis
      by (simp add: list_all_iff in_range_def)
  qed
  with os show ?thesis by blast
qed

text \<open>Both outputs on the second source, as a witness of the theorem for C10.\<close>

theorem source_outputs_increasing_in_range_witness:
  "handle_source_update (example_statuses [1, 1]) =
     Inr (Some [\<lparr> src_outputs = [], src_name = ''Blu-ray'', src_active = True,
                  src_edid_index = 3, src_cec_selected = False \<rparr>,
                \<lparr> src_outputs = [1, 2], src_name = ''Game'', src_active = False,
                  src_edid_index = 3, src_cec_selected = False \<rparr>]) \<and>
   sorted_wrt (<) [1, 2 :: int] \<and> list_all (in_range 1 2) [1, 2]"
proof -
  have a: "handle_source_update (example_statuses [1, 1]) =
     Inr (Some [\<lparr> src_outputs = [], src_name = ''Blu-ray'', src_active = True,
                  src_edid_index = 3, src_cec_selected = False \<rparr>,
                \<lparr> src_outputs = [1, 2], src_name = ''Game'', src_active = False,
                  src_edid_index = 3, src_cec_selected = False \<rparr>])"
    by (simp add: ex_defs run_defs)
  show ?thesis
    using source_outputs_increasing_in_range [OF a] a
    by (simp add: ex_defs in_range_def)
qed

end
